theory Spec2Isabelle
  imports Complex_Main
begin

section \<open>Syntax-tree nodes\<close>

text \<open>
  The handlers read syntax-tree nodes of the host's parser. A node is a tagged union; the
  constructors below are the node types the two rules look at, with the fields they read
  (\<open>name\<close>, \<open>params\<close>, \<open>callee\<close>, \<open>object\<close>, \<open>property\<close>), and \<open>OtherNode\<close> for every
  other node type, carrying its type tag.
\<close>

text \<open>
  Modelled from the spec: the typeguards \<open>isIdentifier\<close>, \<open>isMemberExpression\<close> and
  \<open>isRestElement\<close> of \<^verbatim>\<open>~/util/typeguard\<close> are not among the sources. Following
  section 4.3 (a predicate tests one specific node shape and returns false for all other
  shapes) they are the discriminators of the datatype.
\<close>

datatype node =
    isIdentifier: Identifier (name: string)
  | PrivateIdentifier (name: string)
  | Literal string
  | isRestElement: RestElement node
  | isMemberExpression: MemberExpression (object: node) (property: node) (computed: bool)
  | CallExpression (callee: node) "node list"
  | ArrowFunctionExpression (params: "node list")
  | FunctionDeclaration (params: "node list")
  | FunctionExpression (params: "node list")
  | OtherNode string

section \<open>Rule results\<close>

text \<open>
  A descriptor names the reported node and a key of the rule's message catalogue; a
  \<open>RuleResult\<close> is the context together with the descriptors, in order. The descriptor's
  field \<open>node\<close> is written \<open>d_node\<close> and the result's field \<open>context\<close> is written
  \<open>r_context\<close>.
\<close>

record 'm descriptor =
  d_node :: node
  messageId :: 'm

record ('c, 'm) RuleResult =
  r_context :: 'c
  descriptors :: "'m descriptor list"

section \<open>The rule functional-parameters\<close>

datatype ParameterCountOptions = atLeastOne | exactlyOne

text \<open>
  The option \<open>enforceParameterCount\<close> is one of: a count string, the literal \<open>false\<close>, or
  an object with the fields \<open>count\<close> and \<open>ignoreIIFE\<close>.
\<close>

datatype EnforceParameterCount =
    CountString ParameterCountOptions
  | CountFalse
  | CountObject (count: ParameterCountOptions) (ignoreIIFE: bool)

text \<open>
  The options object. Its part \<open>IgnorePatternOption\<close> is declared in
  \<^verbatim>\<open>~/common/ignore-options\<close>, which is not among the sources; it is the type
  parameter \<open>'ip\<close>. \<open>Options\<close> is the one-element tuple holding the options object.
\<close>

record 'ip OptionsObject =
  ignorePatternOption :: 'ip
  allowRestParameter :: bool
  allowArgumentsKeyword :: bool
  enforceParameterCount :: EnforceParameterCount

datatype 'ip Options = Options "'ip OptionsObject"

datatype errorMessages = restParam | arguments | paramCountAtLeastOne | paramCountExactlyOne

text \<open>Get the rest parameter violations.\<close>

fun getRestParamViolations :: "'ip Options \<Rightarrow> node \<Rightarrow> errorMessages descriptor list" where
  "getRestParamViolations (Options optionsObject) node =
     (if \<not> allowRestParameter optionsObject \<and>
         length (params node) > 0 \<and>
         isRestElement (params node ! (length (params node) - 1))
      then [\<lparr>d_node = params node ! (length (params node) - 1), messageId = restParam\<rparr>]
      else [])"

text \<open>
  Get the parameter count violations. \<open>isIIFE\<close> is a predicate of \<^verbatim>\<open>~/util/tree\<close>,
  which is not among the sources (it looks at the node's parent); it is a parameter.
\<close>

fun getParamCountViolations ::
  "(node \<Rightarrow> bool) \<Rightarrow> 'ip Options \<Rightarrow> node \<Rightarrow> errorMessages descriptor list" where
  "getParamCountViolations isIIFE (Options optionsObject) node =
     (let epc = enforceParameterCount optionsObject in
      if epc = CountFalse \<or>
         (length (params node) = 0 \<and>
          is_CountObject epc \<and>
          ignoreIIFE epc \<and>
          isIIFE node)
      then []
      else if length (params node) = 0 \<and>
              (epc = CountString atLeastOne \<or>
               (is_CountObject epc \<and> count epc = atLeastOne))
      then [\<lparr>d_node = node, messageId = paramCountAtLeastOne\<rparr>]
      else if length (params node) \<noteq> 1 \<and>
              (epc = CountString exactlyOne \<or>
               (is_CountObject epc \<and> count epc = exactlyOne))
      then [\<lparr>d_node = node, messageId = paramCountExactlyOne\<rparr>]
      else [])"

text \<open>
  The handler of the three kinds of function node. \<open>shouldIgnorePattern\<close> is a function of
  \<^verbatim>\<open>~/common/ignore-options\<close>, which is not among the sources; it is a parameter, called
  with the node, the context and the options object.
\<close>

fun checkFunction ::
  "(node \<Rightarrow> 'c \<Rightarrow> 'ip OptionsObject \<Rightarrow> bool) \<Rightarrow> (node \<Rightarrow> bool) \<Rightarrow>
   node \<Rightarrow> 'c \<Rightarrow> 'ip Options \<Rightarrow> ('c, errorMessages) RuleResult" where
  "checkFunction shouldIgnorePattern isIIFE node ctx (Options optionsObject) =
     (if shouldIgnorePattern node ctx optionsObject
      then \<lparr>r_context = ctx, descriptors = []\<rparr>
      else \<lparr>r_context = ctx,
            descriptors =
              getRestParamViolations (Options optionsObject) node @
              getParamCountViolations isIIFE (Options optionsObject) node\<rparr>)"

text \<open>
  The handler of identifiers: is the identifier the \<open>arguments\<close> keyword?
  \<open>isPropertyName\<close> and \<open>isPropertyAccess\<close> are predicates of \<^verbatim>\<open>~/util/tree\<close>, which is
  not among the sources; they are parameters.
\<close>

fun checkIdentifier ::
  "(node \<Rightarrow> 'c \<Rightarrow> 'ip OptionsObject \<Rightarrow> bool) \<Rightarrow> (node \<Rightarrow> bool) \<Rightarrow> (node \<Rightarrow> bool) \<Rightarrow>
   node \<Rightarrow> 'c \<Rightarrow> 'ip Options \<Rightarrow> ('c, errorMessages) RuleResult" where
  "checkIdentifier shouldIgnorePattern isPropertyName isPropertyAccess node ctx
       (Options optionsObject) =
     (if shouldIgnorePattern node ctx optionsObject
      then \<lparr>r_context = ctx, descriptors = []\<rparr>
      else \<lparr>r_context = ctx,
            descriptors =
              (if \<not> allowArgumentsKeyword optionsObject \<and>
                  name node = ''arguments'' \<and>
                  \<not> isPropertyName node \<and>
                  \<not> isPropertyAccess node
               then [\<lparr>d_node = node, messageId = arguments\<rparr>]
               else [])\<rparr>)"

text \<open>
  The default options for the rule. The source's object has no key of the ignore-pattern
  part; \<open>ip\<close> is the value of that part when nothing is configured.
\<close>

definition defaultOptions :: "'ip \<Rightarrow> 'ip Options" where
  "defaultOptions ip =
     Options \<lparr>ignorePatternOption = ip,
              allowRestParameter = False,
              allowArgumentsKeyword = False,
              enforceParameterCount = CountObject atLeastOne True\<rparr>"

text \<open>
  Modelled from the spec: \<open>createRule\<close> of \<^verbatim>\<open>~/util/rule\<close> is not among the sources.
  Following sections 4.4 and 9, the rule hands a visited node to the handler registered for
  its type tag, and a tag without a handler is a no-op. The registration is the source's:
  \<open>checkFunction\<close> for the three kinds of function node, \<open>checkIdentifier\<close> for identifiers.
\<close>

fun rule ::
  "(node \<Rightarrow> 'c \<Rightarrow> 'ip OptionsObject \<Rightarrow> bool) \<Rightarrow> (node \<Rightarrow> bool) \<Rightarrow> (node \<Rightarrow> bool) \<Rightarrow>
   (node \<Rightarrow> bool) \<Rightarrow> node \<Rightarrow> 'c \<Rightarrow> 'ip Options \<Rightarrow> ('c, errorMessages) RuleResult" where
  "rule shouldIgnorePattern isIIFE isPropertyName isPropertyAccess node ctx options =
     (case node of
        FunctionDeclaration _ \<Rightarrow> checkFunction shouldIgnorePattern isIIFE node ctx options
      | FunctionExpression _ \<Rightarrow> checkFunction shouldIgnorePattern isIIFE node ctx options
      | ArrowFunctionExpression _ \<Rightarrow> checkFunction shouldIgnorePattern isIIFE node ctx options
      | Identifier _ \<Rightarrow>
          checkIdentifier shouldIgnorePattern isPropertyName isPropertyAccess node ctx options
      | _ \<Rightarrow> \<lparr>r_context = ctx, descriptors = []\<rparr>)"

section \<open>The rule no-promise-reject\<close>

datatype errorMessages_reject = generic

text \<open>
  The handler of call expressions; the rule takes no options. The callee's \<open>object\<close>,
  \<open>property\<close> and their \<open>name\<close> are read only behind the typeguards.
\<close>

fun checkCallExpression :: "node \<Rightarrow> 'c \<Rightarrow> ('c, errorMessages_reject) RuleResult" where
  "checkCallExpression node ctx =
     \<lparr>r_context = ctx,
      descriptors =
        (if isMemberExpression (callee node) \<and>
            isIdentifier (object (callee node)) \<and>
            isIdentifier (property (callee node)) \<and>
            name (object (callee node)) = ''Promise'' \<and>
            name (property (callee node)) = ''reject''
         then [\<lparr>d_node = node, messageId = generic\<rparr>]
         else [])\<rparr>"

section \<open>The option schema of functional-parameters\<close>

text \<open>
  A raw configuration value is JSON: null, a boolean, a number, a string, an array or an
  object (its keys in order).
\<close>

datatype json =
    JNull
  | JBoolean bool
  | JNumber rat
  | JString string
  | JArray "json list"
  | JObject "(string \<times> json) list"

datatype JSONSchema4TypeName =
  t_string | t_number | t_integer | t_boolean | t_object | t_array | t_null | t_any

text \<open>
  A schema object with the keywords the rule's schema uses: \<open>type\<close>, \<open>enum\<close>,
  \<open>properties\<close>, \<open>additionalProperties\<close> and \<open>oneOf\<close>; \<open>None\<close> is a keyword left out.
\<close>

datatype JSONSchema4 =
  JSONSchema4 (s_type: "JSONSchema4TypeName option")
              (s_enum: "json list option")
              (s_properties: "(string \<times> JSONSchema4) list option")
              (s_additionalProperties: "bool option")
              (s_oneOf: "JSONSchema4 list option")

text \<open>
  The value of the property \<open>enforceParameterCount\<close> in the rule's \<open>schema\<close>. (The
  other properties of the schema are merged with \<open>ignorePatternOptionSchema\<close> of
  \<^verbatim>\<open>~/common/ignore-options\<close>, which is not among the sources.)
\<close>

definition enforceParameterCountSchema :: JSONSchema4 where
  "enforceParameterCountSchema =
     JSONSchema4 None None None None (Some
       [ JSONSchema4 (Some t_boolean) (Some [JBoolean False]) None None None,
         JSONSchema4 (Some t_string) (Some [JString ''atLeastOne'', JString ''exactlyOne''])
           None None None,
         JSONSchema4 (Some t_object) None
           (Some
             [ (''count'',
                 JSONSchema4 (Some t_string)
                   (Some [JString ''atLeastOne'', JString ''exactlyOne'']) None None None),
               (''ignoreIIFE'', JSONSchema4 (Some t_boolean) None None None None) ])
           (Some False) None ])"

text \<open>
  Modelled from the spec: the validation of a raw configuration value against the
  published schema is not among the sources (the rule only publishes \<open>schema\<close> in its
  \<open>meta\<close>). Sections 4.1 and 6 describe it: the schema is JSON-Schema-compatible (object,
  array, string, boolean, enum, oneOf); a union field is validated against exactly one of
  its alternatives, with no coercion between them; a key absent from the schema, or a value
  failing its declared type or enum, fails. \<open>hasType\<close> is the keyword \<open>type\<close>; \<open>validate\<close>
  checks \<open>type\<close>, \<open>enum\<close>, the \<open>properties\<close> of an object (a key that is not declared is
  refused when \<open>additionalProperties\<close> is false) and \<open>oneOf\<close> (exactly one alternative
  holds).
\<close>

fun hasType :: "JSONSchema4TypeName \<Rightarrow> json \<Rightarrow> bool" where
  "hasType t_string v = (case v of JString _ \<Rightarrow> True | _ \<Rightarrow> False)"
| "hasType t_number v = (case v of JNumber _ \<Rightarrow> True | _ \<Rightarrow> False)"
| "hasType t_integer v = (case v of JNumber q \<Rightarrow> q = of_int \<lfloor>q\<rfloor> | _ \<Rightarrow> False)"
| "hasType t_boolean v = (case v of JBoolean _ \<Rightarrow> True | _ \<Rightarrow> False)"
| "hasType t_object v = (case v of JObject _ \<Rightarrow> True | _ \<Rightarrow> False)"
| "hasType t_array v = (case v of JArray _ \<Rightarrow> True | _ \<Rightarrow> False)"
| "hasType t_null v = (case v of JNull \<Rightarrow> True | _ \<Rightarrow> False)"
| "hasType t_any v = True"

function validate :: "JSONSchema4 \<Rightarrow> json \<Rightarrow> bool" where
  "validate (JSONSchema4 t e ps ap alts) v =
     ((case t of None \<Rightarrow> True | Some tn \<Rightarrow> hasType tn v) \<and>
      (case e of None \<Rightarrow> True | Some vs \<Rightarrow> v \<in> set vs) \<and>
      (case v of
         JObject kvs \<Rightarrow>
           list_all (\<lambda>(k, x).
             if k \<in> fst ` set (case ps of None \<Rightarrow> [] | Some l \<Rightarrow> l)
             then list_all (\<lambda>(k', s). k' = k \<longrightarrow> validate s x)
                    (case ps of None \<Rightarrow> [] | Some l \<Rightarrow> l)
             else ap \<noteq> Some False) kvs
       | _ \<Rightarrow> True) \<and>
      (case alts of None \<Rightarrow> True
       | Some ss \<Rightarrow> length (filter (\<lambda>s. validate s v) ss) = 1))"
  by pat_completeness auto
termination
proof -
  have props: "size s \<le> size_list (size_prod (\<lambda>x. 0) size) ps" if "(k, s) \<in> set ps"
    for k :: string and s :: JSONSchema4 and ps
    using that by (induction ps) auto
  have alts: "size s \<le> size_list size ss" if "s \<in> set ss" for s :: JSONSchema4 and ss
    using that by (induction ss) auto
  show ?thesis
    by (relation "measure (\<lambda>(s, v). size s)")
       (auto simp: less_Suc_eq_le dest!: props alts)
qed

text \<open>
  Modelled from the spec: the failure of validation is not among the sources either.
  Sections 4.1 and 7: an invalid option value is a \<open>ConfigurationError\<close>, found once when
  the rule is activated; a valid one is handed on as it is.
\<close>

datatype ConfigurationError = ConfigurationError

definition validateOption :: "JSONSchema4 \<Rightarrow> json \<Rightarrow> ConfigurationError + json" where
  "validateOption s v = (if validate s v then Inr v else Inl ConfigurationError)"

text \<open>
  The four declared alternatives in the words of the spec (section 8, option union
  discrimination: \<open>"atLeastOne" | "exactlyOne" | false | {count, ignoreIIFE}\<close>): one of the
  two strings, the boolean \<open>false\<close>, or an object whose fields are \<open>count\<close> (one of the two
  strings) and \<open>ignoreIIFE\<close> (a boolean).
\<close>

definition spec_declaredAlternative :: "json \<Rightarrow> bool" where
  "spec_declaredAlternative v =
     (case v of
        JString s \<Rightarrow> s = ''atLeastOne'' \<or> s = ''exactlyOne''
      | JBoolean b \<Rightarrow> \<not> b
      | JObject kvs \<Rightarrow>
          set (map fst kvs) = {''count'', ''ignoreIIFE''} \<and>
          list_all (\<lambda>(k, x).
            (k = ''count'' \<and> (x = JString ''atLeastOne'' \<or> x = JString ''exactlyOne'')) \<or>
            (k = ''ignoreIIFE'' \<and> hasType t_boolean x)) kvs
      | _ \<Rightarrow> False)"

text \<open>
  Modelled from the spec: option resolution and rule activation are not among the sources.
  Section 4.1: the user-supplied value is validated, with a \<open>ConfigurationError\<close> on
  failure, and deep-merged over the declared default, user values winning; here the user
  supplies the value of \<open>enforceParameterCount\<close> alone, and the fields an object leaves out
  keep the default's values (the declared default is an object). Section 4.4: at activation
  the resolved options are bound once, and every handler invocation of the session observes
  the same options value. \<open>analyse\<close> is one session: activation, then the visit of each
  node in turn.
\<close>

fun parameterCountOption :: "json \<Rightarrow> ParameterCountOptions option" where
  "parameterCountOption (JString s) =
     (if s = ''atLeastOne'' then Some atLeastOne
      else if s = ''exactlyOne'' then Some exactlyOne
      else None)"
| "parameterCountOption _ = None"

fun mergeEnforceParameterCount :: "EnforceParameterCount \<Rightarrow> json \<Rightarrow> EnforceParameterCount" where
  "mergeEnforceParameterCount d (JBoolean b) = (if b then d else CountFalse)"
| "mergeEnforceParameterCount d (JString s) =
     (case parameterCountOption (JString s) of Some c \<Rightarrow> CountString c | None \<Rightarrow> d)"
| "mergeEnforceParameterCount d (JObject kvs) =
     CountObject
       (case map_of kvs ''count'' of
          Some x \<Rightarrow> (case parameterCountOption x of Some c \<Rightarrow> c | None \<Rightarrow> count d)
        | None \<Rightarrow> count d)
       (case map_of kvs ''ignoreIIFE'' of
          Some (JBoolean b) \<Rightarrow> b
        | _ \<Rightarrow> ignoreIIFE d)"
| "mergeEnforceParameterCount d _ = d"

fun resolveOptions :: "'ip Options \<Rightarrow> json \<Rightarrow> ConfigurationError + 'ip Options" where
  "resolveOptions (Options declaredDefault) userSupplied =
     (case validateOption enforceParameterCountSchema userSupplied of
        Inl e \<Rightarrow> Inl e
      | Inr v \<Rightarrow>
          Inr (Options (declaredDefault\<lparr>enforceParameterCount :=
                 mergeEnforceParameterCount (enforceParameterCount declaredDefault) v\<rparr>)))"

definition analyse ::
  "(node \<Rightarrow> 'c \<Rightarrow> 'ip OptionsObject \<Rightarrow> bool) \<Rightarrow> (node \<Rightarrow> bool) \<Rightarrow> (node \<Rightarrow> bool) \<Rightarrow>
   (node \<Rightarrow> bool) \<Rightarrow> 'ip \<Rightarrow> json \<Rightarrow> 'c \<Rightarrow> node list \<Rightarrow>
   ConfigurationError + ('c, errorMessages) RuleResult list" where
  "analyse shouldIgnorePattern isIIFE isPropertyName isPropertyAccess ip userSupplied ctx nodes =
     (case resolveOptions (defaultOptions ip) userSupplied of
        Inl e \<Rightarrow> Inl e
      | Inr options \<Rightarrow>
          Inr (map (\<lambda>node. rule shouldIgnorePattern isIIFE isPropertyName isPropertyAccess
                      node ctx options) nodes))"

section \<open>Properties of functional-parameters\<close>

lemma getParamCountViolations_messageId:
  "d \<in> set (getParamCountViolations isIIFE (Options optionsObject) node) \<Longrightarrow>
   messageId d \<noteq> restParam"
  by (auto simp: Let_def split: if_splits)

lemma getRestParamViolations_messageId:
  "d \<in> set (getRestParamViolations (Options optionsObject) node) \<Longrightarrow>
   messageId d = restParam"
  by (auto split: if_splits)

lemma append_order:
  assumes "\<forall>d \<in> set xs. P d" and "\<forall>d \<in> set ys. \<not> P d"
    and "i < length (xs @ ys)" and "j < length (xs @ ys)"
    and "\<not> P ((xs @ ys) ! i)" and "P ((xs @ ys) ! j)"
  shows "j < i"
proof -
  have "\<not> i < length xs" using assms(1,5) by (auto simp: nth_append)
  moreover have "j < length xs" using assms(2,4,6) by (auto simp: nth_append split: if_splits)
  ultimately show ?thesis by simp
qed

text \<open>
  Claim C1 (ignore short-circuit). Whenever \<open>shouldIgnorePattern\<close> holds of the node, the
  context and the options object, \<open>checkFunction\<close> and \<open>checkIdentifier\<close> return an empty
  descriptor sequence, whatever the rest-parameter detector, the parameter-count detector
  or the check of the \<open>arguments\<close> keyword would report for that node.
\<close>

theorem ignore_short_circuit:
  "(shouldIgnorePattern node ctx optionsObject \<longrightarrow>
      descriptors (checkFunction shouldIgnorePattern isIIFE node ctx (Options optionsObject)) = [])
   \<and> (shouldIgnorePattern ident ctx optionsObject \<longrightarrow>
      descriptors (checkIdentifier shouldIgnorePattern isPropertyName isPropertyAccess
            ident ctx (Options optionsObject)) = [])"
  by simp

theorem ignore_short_circuit_witness:
  "(\<lambda>n c opts. ignorePatternOption opts)
      (FunctionDeclaration [Identifier ''a'', RestElement (Identifier ''xs'')]) ()
      \<lparr>ignorePatternOption = True, allowRestParameter = False, allowArgumentsKeyword = False,
        enforceParameterCount = CountString exactlyOne\<rparr>
   \<and> descriptors (checkFunction (\<lambda>n c opts. ignorePatternOption opts) (\<lambda>n. False)
        (FunctionDeclaration [Identifier ''a'', RestElement (Identifier ''xs'')]) ()
        (Options \<lparr>ignorePatternOption = True, allowRestParameter = False,
           allowArgumentsKeyword = False, enforceParameterCount = CountString exactlyOne\<rparr>)) = []
   \<and> (\<lambda>n c opts. ignorePatternOption opts) (Identifier ''arguments'') ()
      \<lparr>ignorePatternOption = True, allowRestParameter = False, allowArgumentsKeyword = False,
        enforceParameterCount = CountString exactlyOne\<rparr>
   \<and> descriptors (checkIdentifier (\<lambda>n c opts. ignorePatternOption opts) (\<lambda>n. False) (\<lambda>n. False)
        (Identifier ''arguments'') ()
        (Options \<lparr>ignorePatternOption = True, allowRestParameter = False,
           allowArgumentsKeyword = False, enforceParameterCount = CountString exactlyOne\<rparr>)) = []"
  using ignore_short_circuit [of "\<lambda>n c opts. ignorePatternOption opts"
      "FunctionDeclaration [Identifier ''a'', RestElement (Identifier ''xs'')]" "()"
      "\<lparr>ignorePatternOption = True, allowRestParameter = False, allowArgumentsKeyword = False,
        enforceParameterCount = CountString exactlyOne\<rparr>" "\<lambda>n. False"
      "Identifier ''arguments''" "\<lambda>n. False" "\<lambda>n. False"]
  by simp

text \<open>
  Claim C2 (scenario A, parameter count). With \<open>enforceParameterCount\<close> set to the string
  \<open>atLeastOne\<close> and no matching ignore pattern, \<open>checkFunction\<close> returns, for a function
  node with zero parameters that is not the callee of an immediately-invoked call, exactly
  one descriptor, on the function node, with the message key \<open>paramCountAtLeastOne\<close>.
\<close>

theorem param_count_at_least_one:
  assumes "enforceParameterCount optionsObject = CountString atLeastOne"
    and "\<not> shouldIgnorePattern node ctx optionsObject"
    and "params node = []"
    and "\<not> isIIFE node"
  shows "descriptors (checkFunction shouldIgnorePattern isIIFE node ctx (Options optionsObject))
         = [\<lparr>d_node = node, messageId = paramCountAtLeastOne\<rparr>]"
  using assms by simp

theorem param_count_at_least_one_witness:
  "enforceParameterCount
      \<lparr>ignorePatternOption = (), allowRestParameter = False, allowArgumentsKeyword = False,
        enforceParameterCount = CountString atLeastOne\<rparr> = CountString atLeastOne
   \<and> \<not> (\<lambda>n c opts. False) (FunctionDeclaration []) ()
        \<lparr>ignorePatternOption = (), allowRestParameter = False, allowArgumentsKeyword = False,
          enforceParameterCount = CountString atLeastOne\<rparr>
   \<and> params (FunctionDeclaration []) = []
   \<and> \<not> (\<lambda>n. False) (FunctionDeclaration [])
   \<and> descriptors (checkFunction (\<lambda>n c opts. False) (\<lambda>n. False) (FunctionDeclaration []) ()
        (Options \<lparr>ignorePatternOption = (), allowRestParameter = False,
           allowArgumentsKeyword = False, enforceParameterCount = CountString atLeastOne\<rparr>))
       = [\<lparr>d_node = FunctionDeclaration [], messageId = paramCountAtLeastOne\<rparr>]"
  using param_count_at_least_one [of
      "\<lparr>ignorePatternOption = (), allowRestParameter = False, allowArgumentsKeyword = False,
        enforceParameterCount = CountString atLeastOne\<rparr>"
      "\<lambda>n c opts. False" "FunctionDeclaration []" "()" "\<lambda>n. False"]
  by simp

text \<open>
  Claim C3 (scenario B, exemption of immediately-invoked functions). With
  \<open>enforceParameterCount\<close> set to the object with \<open>count\<close> \<open>atLeastOne\<close> and \<open>ignoreIIFE\<close>
  true, \<open>checkFunction\<close> returns no descriptor for a function node with zero parameters
  that is the callee of an immediately-invoked call.
\<close>

theorem iife_exemption:
  assumes "enforceParameterCount optionsObject = CountObject atLeastOne True"
    and "params node = []"
    and "isIIFE node"
  shows "descriptors (checkFunction shouldIgnorePattern isIIFE node ctx (Options optionsObject))
         = []"
  using assms by simp

theorem iife_exemption_witness:
  "enforceParameterCount
      \<lparr>ignorePatternOption = (), allowRestParameter = False, allowArgumentsKeyword = False,
        enforceParameterCount = CountObject atLeastOne True\<rparr> = CountObject atLeastOne True
   \<and> params (ArrowFunctionExpression []) = []
   \<and> (\<lambda>n. n = ArrowFunctionExpression []) (ArrowFunctionExpression [])
   \<and> descriptors (checkFunction (\<lambda>n c opts. False) (\<lambda>n. n = ArrowFunctionExpression [])
        (ArrowFunctionExpression []) ()
        (Options \<lparr>ignorePatternOption = (), allowRestParameter = False,
           allowArgumentsKeyword = False, enforceParameterCount = CountObject atLeastOne True\<rparr>))
       = []"
  using iife_exemption [of
      "\<lparr>ignorePatternOption = (), allowRestParameter = False, allowArgumentsKeyword = False,
        enforceParameterCount = CountObject atLeastOne True\<rparr>"
      "ArrowFunctionExpression []" "\<lambda>n. n = ArrowFunctionExpression []" "\<lambda>n c opts. False" "()"]
  by simp

text \<open>
  Claim C4 (scenario C, rest parameter). With \<open>allowRestParameter\<close> false and no matching
  ignore pattern, the result of \<open>checkFunction\<close> for a function node whose final parameter
  is a rest element contains exactly one descriptor with the message key \<open>restParam\<close>, on
  that final parameter, whatever \<open>enforceParameterCount\<close> is: the result has one descriptor
  more than the parameter-count detector reports, so two in total when that detector fires
  as well.
\<close>

theorem rest_parameter:
  assumes "\<not> allowRestParameter optionsObject"
    and "\<not> shouldIgnorePattern node ctx optionsObject"
    and "params node \<noteq> []"
    and "isRestElement (last (params node))"
  shows "length (filter (\<lambda>d. messageId d = restParam)
           (descriptors (checkFunction shouldIgnorePattern isIIFE node ctx (Options optionsObject)))) = 1
    \<and> \<lparr>d_node = last (params node), messageId = restParam\<rparr>
        \<in> set (descriptors (checkFunction shouldIgnorePattern isIIFE node ctx (Options optionsObject)))
    \<and> length (descriptors (checkFunction shouldIgnorePattern isIIFE node ctx (Options optionsObject)))
        = 1 + length (getParamCountViolations isIIFE (Options optionsObject) node)
    \<and> (getParamCountViolations isIIFE (Options optionsObject) node \<noteq> [] \<longrightarrow>
         length (descriptors
           (checkFunction shouldIgnorePattern isIIFE node ctx (Options optionsObject))) = 2)"
  using assms by (simp add: Let_def last_conv_nth)

theorem rest_parameter_witness:
  "\<not> allowRestParameter
      \<lparr>ignorePatternOption = (), allowRestParameter = False, allowArgumentsKeyword = False,
        enforceParameterCount = CountString exactlyOne\<rparr>
   \<and> \<not> (\<lambda>n c opts. False) (FunctionExpression [Identifier ''a'', RestElement (Identifier ''xs'')]) ()
        \<lparr>ignorePatternOption = (), allowRestParameter = False, allowArgumentsKeyword = False,
          enforceParameterCount = CountString exactlyOne\<rparr>
   \<and> params (FunctionExpression [Identifier ''a'', RestElement (Identifier ''xs'')]) \<noteq> []
   \<and> isRestElement
        (last (params (FunctionExpression [Identifier ''a'', RestElement (Identifier ''xs'')])))
   \<and> getParamCountViolations (\<lambda>n. False)
        (Options \<lparr>ignorePatternOption = (), allowRestParameter = False,
           allowArgumentsKeyword = False, enforceParameterCount = CountString exactlyOne\<rparr>)
        (FunctionExpression [Identifier ''a'', RestElement (Identifier ''xs'')]) \<noteq> []
   \<and> length (filter (\<lambda>d. messageId d = restParam)
        (descriptors (checkFunction (\<lambda>n c opts. False) (\<lambda>n. False)
           (FunctionExpression [Identifier ''a'', RestElement (Identifier ''xs'')]) ()
           (Options \<lparr>ignorePatternOption = (), allowRestParameter = False,
              allowArgumentsKeyword = False,
              enforceParameterCount = CountString exactlyOne\<rparr>)))) = 1
   \<and> length (descriptors (checkFunction (\<lambda>n c opts. False) (\<lambda>n. False)
        (FunctionExpression [Identifier ''a'', RestElement (Identifier ''xs'')]) ()
        (Options \<lparr>ignorePatternOption = (), allowRestParameter = False,
           allowArgumentsKeyword = False, enforceParameterCount = CountString exactlyOne\<rparr>))) = 2"
  using rest_parameter [of
      "\<lparr>ignorePatternOption = (), allowRestParameter = False, allowArgumentsKeyword = False,
        enforceParameterCount = CountString exactlyOne\<rparr>"
      "\<lambda>n c opts. False" "FunctionExpression [Identifier ''a'', RestElement (Identifier ''xs'')]"
      "()" "\<lambda>n. False"]
  by simp

text \<open>
  Claim C6 (detector order). For a function node that is not ignored, the descriptor sequence
  of \<open>checkFunction\<close> is the output of \<open>getRestParamViolations\<close> followed by the output of
  \<open>getParamCountViolations\<close>; so a \<open>restParam\<close> descriptor stands before every
  parameter-count descriptor of the same result.
\<close>

theorem detector_order:
  assumes "\<not> shouldIgnorePattern node ctx optionsObject"
  shows "descriptors (checkFunction shouldIgnorePattern isIIFE node ctx (Options optionsObject))
           = getRestParamViolations (Options optionsObject) node @
             getParamCountViolations isIIFE (Options optionsObject) node
    \<and> (\<forall>i j. i < length (descriptors
                 (checkFunction shouldIgnorePattern isIIFE node ctx (Options optionsObject)))
          \<and> j < length (descriptors
                 (checkFunction shouldIgnorePattern isIIFE node ctx (Options optionsObject)))
          \<and> messageId (descriptors
                 (checkFunction shouldIgnorePattern isIIFE node ctx (Options optionsObject)) ! i)
              = restParam
          \<and> messageId (descriptors
                 (checkFunction shouldIgnorePattern isIIFE node ctx (Options optionsObject)) ! j)
              \<in> {paramCountAtLeastOne, paramCountExactlyOne}
          \<longrightarrow> i < j)"
proof -
  let ?xs = "getRestParamViolations (Options optionsObject) node"
  let ?ys = "getParamCountViolations isIIFE (Options optionsObject) node"
  have eq: "descriptors (checkFunction shouldIgnorePattern isIIFE node ctx (Options optionsObject))
      = ?xs @ ?ys"
    using assms by simp
  have xs: "\<forall>d \<in> set ?xs. messageId d = restParam"
    using getRestParamViolations_messageId by blast
  have ys: "\<forall>d \<in> set ?ys. \<not> messageId d = restParam"
    using getParamCountViolations_messageId by blast
  have "i < j" if "i < length (?xs @ ?ys)" "j < length (?xs @ ?ys)"
      "messageId ((?xs @ ?ys) ! i) = restParam"
      "messageId ((?xs @ ?ys) ! j) \<in> {paramCountAtLeastOne, paramCountExactlyOne}" for i j
  proof -
    have "messageId ((?xs @ ?ys) ! j) \<noteq> restParam" using that(4) by auto
    then show ?thesis
      using append_order [of ?xs "\<lambda>d. messageId d = restParam" ?ys j i] xs ys that(1-3)
      by blast
  qed
  then show ?thesis unfolding eq by blast
qed

theorem detector_order_witness:
  "\<not> (\<lambda>n c opts. False) (FunctionExpression [Identifier ''a'', RestElement (Identifier ''xs'')]) ()
        \<lparr>ignorePatternOption = (), allowRestParameter = False, allowArgumentsKeyword = False,
          enforceParameterCount = CountString exactlyOne\<rparr>
   \<and> descriptors (checkFunction (\<lambda>n c opts. False) (\<lambda>n. False)
        (FunctionExpression [Identifier ''a'', RestElement (Identifier ''xs'')]) ()
        (Options \<lparr>ignorePatternOption = (), allowRestParameter = False,
           allowArgumentsKeyword = False, enforceParameterCount = CountString exactlyOne\<rparr>))
     = [\<lparr>d_node = RestElement (Identifier ''xs''), messageId = restParam\<rparr>,
        \<lparr>d_node = FunctionExpression [Identifier ''a'', RestElement (Identifier ''xs'')],
         messageId = paramCountExactlyOne\<rparr>]"
  using detector_order [of "\<lambda>n c opts. False"
      "FunctionExpression [Identifier ''a'', RestElement (Identifier ''xs'')]" "()"
      "\<lparr>ignorePatternOption = (), allowRestParameter = False, allowArgumentsKeyword = False,
        enforceParameterCount = CountString exactlyOne\<rparr>" "\<lambda>n. False"]
  by simp

text \<open>
  Claim C9 (the exemption needs zero parameters). For a function node with one or more
  parameters the parameter-count detector does not depend on \<open>isIIFE\<close>; and when such a
  node violates the configured count (which, with a parameter present, is a count of
  \<open>exactlyOne\<close> with a number of parameters other than one), the detector returns the
  descriptor \<open>paramCountExactlyOne\<close> on the function node, whatever \<open>ignoreIIFE\<close> is and
  also when the function is the callee of an immediately-invoked call; \<open>checkFunction\<close>
  reports it unless the node is ignored.
\<close>

theorem ignoreIIFE_only_without_parameters:
  "(length (params node) \<ge> 1 \<longrightarrow>
      getParamCountViolations isIIFE (Options optionsObject) node
        = getParamCountViolations (\<lambda>n. False) (Options optionsObject) node)
   \<and> (length (params node) \<ge> 1
      \<and> (enforceParameterCount optionsObject = CountString c
         \<or> enforceParameterCount optionsObject = CountObject c ig)
      \<and> (case c of atLeastOne \<Rightarrow> length (params node) < 1
                  | exactlyOne \<Rightarrow> length (params node) \<noteq> 1)
      \<longrightarrow> getParamCountViolations isIIFE (Options optionsObject) node
            = [\<lparr>d_node = node, messageId = paramCountExactlyOne\<rparr>]
        \<and> (\<not> shouldIgnorePattern node ctx optionsObject \<longrightarrow>
             \<lparr>d_node = node, messageId = paramCountExactlyOne\<rparr>
               \<in> set (descriptors (checkFunction shouldIgnorePattern isIIFE node ctx
                        (Options optionsObject)))))"
  by (cases c) (auto simp: Let_def)

theorem ignoreIIFE_only_without_parameters_witness:
  "length (params (ArrowFunctionExpression [Identifier ''a'', Identifier ''b''])) \<ge> 1
   \<and> enforceParameterCount
        \<lparr>ignorePatternOption = (), allowRestParameter = False, allowArgumentsKeyword = False,
          enforceParameterCount = CountObject exactlyOne True\<rparr> = CountObject exactlyOne True
   \<and> length (params (ArrowFunctionExpression [Identifier ''a'', Identifier ''b''])) \<noteq> 1
   \<and> (\<lambda>n. True) (ArrowFunctionExpression [Identifier ''a'', Identifier ''b''])
   \<and> \<not> (\<lambda>n c opts. False) (ArrowFunctionExpression [Identifier ''a'', Identifier ''b'']) ()
        \<lparr>ignorePatternOption = (), allowRestParameter = False, allowArgumentsKeyword = False,
          enforceParameterCount = CountObject exactlyOne True\<rparr>
   \<and> getParamCountViolations (\<lambda>n. True)
        (Options \<lparr>ignorePatternOption = (), allowRestParameter = False,
           allowArgumentsKeyword = False, enforceParameterCount = CountObject exactlyOne True\<rparr>)
        (ArrowFunctionExpression [Identifier ''a'', Identifier ''b''])
       = [\<lparr>d_node = ArrowFunctionExpression [Identifier ''a'', Identifier ''b''],
           messageId = paramCountExactlyOne\<rparr>]
   \<and> \<lparr>d_node = ArrowFunctionExpression [Identifier ''a'', Identifier ''b''],
        messageId = paramCountExactlyOne\<rparr>
       \<in> set (descriptors (checkFunction (\<lambda>n c opts. False) (\<lambda>n. True)
           (ArrowFunctionExpression [Identifier ''a'', Identifier ''b'']) ()
           (Options \<lparr>ignorePatternOption = (), allowRestParameter = False,
              allowArgumentsKeyword = False,
              enforceParameterCount = CountObject exactlyOne True\<rparr>)))"
  using ignoreIIFE_only_without_parameters [of
      "ArrowFunctionExpression [Identifier ''a'', Identifier ''b'']" "\<lambda>n. True"
      "\<lparr>ignorePatternOption = (), allowRestParameter = False, allowArgumentsKeyword = False,
        enforceParameterCount = CountObject exactlyOne True\<rparr>"
      exactlyOne True "\<lambda>n c opts. False" "()"]
  by simp

section \<open>Properties of the option schema\<close>

lemma validate_leaf:
  "validate (JSONSchema4 (Some tn) e None None None) v =
     (hasType tn v \<and> (case e of None \<Rightarrow> True | Some vs \<Rightarrow> v \<in> set vs))"
  by (cases v) (auto simp: list_all_iff)

lemma validate_enum_leaf:
  "validate (JSONSchema4 (Some t_string) (Some [JString a, JString b]) None None None) x
     \<longleftrightarrow> x = JString a \<or> x = JString b"
  by (cases x) (simp_all add: validate_leaf)

lemma validate_boolean_leaf:
  "validate (JSONSchema4 (Some t_boolean) None None None None) x \<longleftrightarrow> (\<exists>b. x = JBoolean b)"
  by (cases x) (simp_all add: validate_leaf)

lemma validate_false_leaf:
  "validate (JSONSchema4 (Some t_boolean) (Some [JBoolean False]) None None None) x
     \<longleftrightarrow> x = JBoolean False"
  by (cases x) (simp_all add: validate_leaf)


lemma property_check:
  "(if k \<in> fst ` set [(''count'',
                 JSONSchema4 (Some t_string)
                   (Some [JString ''atLeastOne'', JString ''exactlyOne'']) None None None),
               (''ignoreIIFE'', JSONSchema4 (Some t_boolean) None None None None)]
    then list_all (\<lambda>(k', s). k' = k \<longrightarrow> validate s x)
                 [(''count'',
                 JSONSchema4 (Some t_string)
                   (Some [JString ''atLeastOne'', JString ''exactlyOne'']) None None None),
               (''ignoreIIFE'', JSONSchema4 (Some t_boolean) None None None None)]
    else Some False \<noteq> Some False)
   \<longleftrightarrow> (k = ''count'' \<and> (x = JString ''atLeastOne'' \<or> x = JString ''exactlyOne'')) \<or>
          (k = ''ignoreIIFE'' \<and> (\<exists>b. x = JBoolean b))"
  by (simp del: validate.simps add: validate_enum_leaf validate_boolean_leaf)

lemma validate_object_alternative:
  "validate
     (JSONSchema4 (Some t_object) None
        (Some
          [ (''count'',
              JSONSchema4 (Some t_string)
                (Some [JString ''atLeastOne'', JString ''exactlyOne'']) None None None),
            (''ignoreIIFE'', JSONSchema4 (Some t_boolean) None None None None) ])
        (Some False) None) v
   \<longleftrightarrow> (\<exists>kvs. v = JObject kvs \<and>
        list_all (\<lambda>(k, x).
          (k = ''count'' \<and> (x = JString ''atLeastOne'' \<or> x = JString ''exactlyOne'')) \<or>
          (k = ''ignoreIIFE'' \<and> (\<exists>b. x = JBoolean b))) kvs)"
proof (cases v)
  case (JObject kvs)
  show ?thesis
    unfolding JObject
    by (subst validate.simps) (simp only: option.case json.case property_check, simp)
qed simp_all

lemma enforceParameterCountSchema_valid_iff:
  "validate enforceParameterCountSchema v \<longleftrightarrow>
     v = JBoolean False \<or> v = JString ''atLeastOne'' \<or> v = JString ''exactlyOne'' \<or>
     (\<exists>kvs. v = JObject kvs \<and>
        list_all (\<lambda>(k, x).
          (k = ''count'' \<and> (x = JString ''atLeastOne'' \<or> x = JString ''exactlyOne'')) \<or>
          (k = ''ignoreIIFE'' \<and> (\<exists>b. x = JBoolean b))) kvs)"
proof -
  have one_of: "validate enforceParameterCountSchema v \<longleftrightarrow>
     length (filter (\<lambda>s. validate s v)
       [ JSONSchema4 (Some t_boolean) (Some [JBoolean False]) None None None,
         JSONSchema4 (Some t_string) (Some [JString ''atLeastOne'', JString ''exactlyOne''])
           None None None,
         JSONSchema4 (Some t_object) None
           (Some
             [ (''count'',
                 JSONSchema4 (Some t_string)
                   (Some [JString ''atLeastOne'', JString ''exactlyOne'']) None None None),
               (''ignoreIIFE'', JSONSchema4 (Some t_boolean) None None None None) ])
           (Some False) None ]) = 1"
    unfolding enforceParameterCountSchema_def
    by (subst validate.simps) (cases v; simp del: validate.simps add: list_all_iff)
  show ?thesis
    unfolding one_of
    by (simp only: filter.simps validate_false_leaf validate_enum_leaf
          validate_object_alternative)
       (cases v; simp)
qed

lemma hasType_boolean_iff: "hasType t_boolean x \<longleftrightarrow> (\<exists>b. x = JBoolean b)"
  by (cases x) simp_all

lemma spec_declaredAlternative_valid:
  "spec_declaredAlternative v \<Longrightarrow> validate enforceParameterCountSchema v"
  unfolding enforceParameterCountSchema_valid_iff spec_declaredAlternative_def
  by (cases v) (simp_all del: hasType.simps add: hasType_boolean_iff)

lemma resolveOptions_valid:
  "validate enforceParameterCountSchema v \<Longrightarrow>
   resolveOptions (Options d) v =
     Inr (Options (d\<lparr>enforceParameterCount :=
            mergeEnforceParameterCount (enforceParameterCount d) v\<rparr>))"
  by (simp add: validateOption_def)

lemma resolveOptions_invalid:
  "\<not> validate enforceParameterCountSchema v \<Longrightarrow>
   resolveOptions (Options d) v = Inl ConfigurationError"
  by (simp add: validateOption_def)

text \<open>
  The claim as first stated (accept the four declared alternatives, refuse every other
  value) fails: the object alternative of the schema has no \<open>required\<close> keyword, so the
  empty object and an object with \<open>ignoreIIFE\<close> alone are accepted, although neither is one
  of the four declared alternatives.
\<close>

theorem option_union_counterexample:
  "\<not> spec_declaredAlternative (JObject [])
   \<and> validateOption enforceParameterCountSchema (JObject []) = Inr (JObject [])
   \<and> \<not> spec_declaredAlternative (JObject [(''ignoreIIFE'', JBoolean False)])
   \<and> validateOption enforceParameterCountSchema (JObject [(''ignoreIIFE'', JBoolean False)])
       = Inr (JObject [(''ignoreIIFE'', JBoolean False)])"
  by (auto simp: spec_declaredAlternative_def validateOption_def enforceParameterCountSchema_valid_iff)

text \<open>
  Claim C7 (option union discrimination), as amended. Validation against the schema of
  \<open>enforceParameterCount\<close> accepts each of the four declared alternatives. A value is
  accepted exactly when it is \<open>false\<close>, one of the two strings, or an object all of whose
  entries are a \<open>count\<close> with one of the two strings or an \<open>ignoreIIFE\<close> with a boolean (either
  field may be left out); every other value, so every number, \<open>true\<close>, \<open>null\<close> and every
  array, gets a \<open>ConfigurationError\<close>. The error arises at activation: for a refused value,
  option resolution fails and the session ends with the one \<open>ConfigurationError\<close>, whatever
  nodes there are to visit, also none. For an accepted value the options are resolved once
  and each visited node yields a \<open>RuleResult\<close> under these same options, never an error.
\<close>

theorem option_union_discrimination:
  "(spec_declaredAlternative v \<longrightarrow> validateOption enforceParameterCountSchema v = Inr v)
   \<and> validateOption enforceParameterCountSchema v =
       (if (case v of
              JBoolean c \<Rightarrow> \<not> c
            | JString str \<Rightarrow> str = ''atLeastOne'' \<or> str = ''exactlyOne''
            | JObject kvs \<Rightarrow>
                list_all (\<lambda>(k, x).
                  (k = ''count'' \<and> (x = JString ''atLeastOne'' \<or> x = JString ''exactlyOne'')) \<or>
                  (k = ''ignoreIIFE'' \<and> (\<exists>c. x = JBoolean c))) kvs
            | _ \<Rightarrow> False)
        then Inr v else Inl ConfigurationError)
   \<and> validateOption enforceParameterCountSchema (JNumber q) = Inl ConfigurationError
   \<and> validateOption enforceParameterCountSchema (JBoolean True) = Inl ConfigurationError
   \<and> validateOption enforceParameterCountSchema JNull = Inl ConfigurationError
   \<and> validateOption enforceParameterCountSchema (JArray xs) = Inl ConfigurationError
   \<and> (validateOption enforceParameterCountSchema v = Inl ConfigurationError \<longrightarrow>
        resolveOptions (defaultOptions ip) v = Inl ConfigurationError
        \<and> analyse shouldIgnorePattern isIIFE isPropertyName isPropertyAccess ip v ctx nodes
            = Inl ConfigurationError)
   \<and> (validateOption enforceParameterCountSchema v = Inr v \<longrightarrow>
        (\<exists>options.
           resolveOptions (defaultOptions ip) v = Inr options
           \<and> analyse shouldIgnorePattern isIIFE isPropertyName isPropertyAccess ip v ctx nodes
               = Inr (map (\<lambda>node. rule shouldIgnorePattern isIIFE isPropertyName
                                    isPropertyAccess node ctx options) nodes)))"
proof -
  have accepted: "spec_declaredAlternative v \<longrightarrow> validateOption enforceParameterCountSchema v = Inr v"
    using spec_declaredAlternative_valid [of v] by (simp add: validateOption_def)
  have exact: "validateOption enforceParameterCountSchema v =
       (if (case v of
              JBoolean c \<Rightarrow> \<not> c
            | JString str \<Rightarrow> str = ''atLeastOne'' \<or> str = ''exactlyOne''
            | JObject kvs \<Rightarrow>
                list_all (\<lambda>(k, x).
                  (k = ''count'' \<and> (x = JString ''atLeastOne'' \<or> x = JString ''exactlyOne'')) \<or>
                  (k = ''ignoreIIFE'' \<and> (\<exists>c. x = JBoolean c))) kvs
            | _ \<Rightarrow> False)
        then Inr v else Inl ConfigurationError)"
    by (cases v) (simp_all add: validateOption_def enforceParameterCountSchema_valid_iff)
  have shapes: "validateOption enforceParameterCountSchema (JNumber q) = Inl ConfigurationError
     \<and> validateOption enforceParameterCountSchema (JBoolean True) = Inl ConfigurationError
     \<and> validateOption enforceParameterCountSchema JNull = Inl ConfigurationError
     \<and> validateOption enforceParameterCountSchema (JArray xs) = Inl ConfigurationError"
    by (simp add: validateOption_def enforceParameterCountSchema_valid_iff)
  have invalid: "validateOption enforceParameterCountSchema v = Inl ConfigurationError \<longrightarrow>
        resolveOptions (defaultOptions ip) v = Inl ConfigurationError
        \<and> analyse shouldIgnorePattern isIIFE isPropertyName isPropertyAccess ip v ctx nodes
            = Inl ConfigurationError"
    by (simp add: analyse_def defaultOptions_def)
  have valid: "validateOption enforceParameterCountSchema v = Inr v \<longrightarrow>
        (\<exists>options.
           resolveOptions (defaultOptions ip) v = Inr options
           \<and> analyse shouldIgnorePattern isIIFE isPropertyName isPropertyAccess ip v ctx nodes
               = Inr (map (\<lambda>node. rule shouldIgnorePattern isIIFE isPropertyName
                                    isPropertyAccess node ctx options) nodes))"
    by (simp add: analyse_def defaultOptions_def del: rule.simps)
  from accepted exact shapes invalid valid show ?thesis by blast
qed

theorem option_union_discrimination_witness:
  "validateOption enforceParameterCountSchema (JNumber 1) = Inl ConfigurationError
   \<and> analyse (\<lambda>n c opts. False) (\<lambda>n. False) (\<lambda>n. False) (\<lambda>n. False) () (JNumber 1) ()
        [ArrowFunctionExpression [Identifier ''a'', Identifier ''b''], Identifier ''arguments'']
       = Inl ConfigurationError
   \<and> spec_declaredAlternative
        (JObject [(''count'', JString ''exactlyOne''), (''ignoreIIFE'', JBoolean True)])
   \<and> validateOption enforceParameterCountSchema
        (JObject [(''count'', JString ''exactlyOne''), (''ignoreIIFE'', JBoolean True)])
       = Inr (JObject [(''count'', JString ''exactlyOne''), (''ignoreIIFE'', JBoolean True)])
   \<and> analyse (\<lambda>n c opts. False) (\<lambda>n. False) (\<lambda>n. False) (\<lambda>n. False) ()
        (JObject [(''count'', JString ''exactlyOne''), (''ignoreIIFE'', JBoolean True)]) ()
        [ArrowFunctionExpression [Identifier ''a'', Identifier ''b''], Identifier ''arguments'']
       = Inr [\<lparr>r_context = (),
               descriptors =
                 [\<lparr>d_node = ArrowFunctionExpression [Identifier ''a'', Identifier ''b''],
                   messageId = paramCountExactlyOne\<rparr>]\<rparr>,
              \<lparr>r_context = (),
               descriptors = [\<lparr>d_node = Identifier ''arguments'', messageId = arguments\<rparr>]\<rparr>]"
  using option_union_discrimination [of "JNumber 1" 1 "[]" "()" "\<lambda>n c opts. False" "\<lambda>n. False"
      "\<lambda>n. False" "\<lambda>n. False" "()"
      "[ArrowFunctionExpression [Identifier ''a'', Identifier ''b''], Identifier ''arguments'']"]
    option_union_discrimination [of
      "JObject [(''count'', JString ''exactlyOne''), (''ignoreIIFE'', JBoolean True)]" 1 "[]" "()"
      "\<lambda>n c opts. False" "\<lambda>n. False" "\<lambda>n. False" "\<lambda>n. False" "()"
      "[ArrowFunctionExpression [Identifier ''a'', Identifier ''b''], Identifier ''arguments'']"]
  by (simp add: spec_declaredAlternative_def validateOption_def enforceParameterCountSchema_valid_iff
        analyse_def defaultOptions_def)

section \<open>Properties of no-promise-reject\<close>

text \<open>
  Claim C5 (scenario D, detection of the reject call). For a call expression whose callee is
  the member access with the object identifier \<open>Promise\<close> and the property identifier
  \<open>reject\<close>, \<open>checkCallExpression\<close> returns exactly one descriptor, on the call, with the
  message key \<open>generic\<close>; for the callee \<open>Promise.resolve\<close> it returns no descriptor.
\<close>

theorem reject_call_detection:
  "descriptors (checkCallExpression
      (CallExpression (MemberExpression (Identifier ''Promise'') (Identifier ''reject'') cmp) args)
      ctx)
     = [\<lparr>d_node = CallExpression
           (MemberExpression (Identifier ''Promise'') (Identifier ''reject'') cmp) args,
         messageId = generic\<rparr>]
   \<and> descriptors (checkCallExpression
      (CallExpression (MemberExpression (Identifier ''Promise'') (Identifier ''resolve'') cmp) args)
      ctx) = []"
  by simp

text \<open>
  Claim C10 (only a member access on two identifiers is reported). \<open>checkCallExpression\<close>
  returns no descriptor for a call whose callee is not a member expression with identifiers
  as object and as property: so for the bare call \<open>reject(...)\<close>, for the computed access
  \<open>Promise["reject"](...)\<close>, whose property is a literal, and for the nested access
  \<open>a.Promise.reject(...)\<close>, whose object is a member expression. The arguments of the call
  are not inspected: the message keys of the result are the same for any other arguments.
\<close>

theorem no_report_unless_identifier_member:
  "(\<not> (isMemberExpression c \<and> isIdentifier (object c) \<and> isIdentifier (property c)) \<longrightarrow>
      descriptors (checkCallExpression (CallExpression c args) ctx) = [])
   \<and> descriptors (checkCallExpression (CallExpression (Identifier ''reject'') args) ctx) = []
   \<and> descriptors (checkCallExpression
        (CallExpression (MemberExpression (Identifier ''Promise'') (Literal ''reject'') True) args)
        ctx) = []
   \<and> descriptors (checkCallExpression
        (CallExpression
          (MemberExpression (MemberExpression (Identifier ''a'') (Identifier ''Promise'') False)
             (Identifier ''reject'') False) args)
        ctx) = []
   \<and> map messageId (descriptors (checkCallExpression (CallExpression c args) ctx))
     = map messageId (descriptors (checkCallExpression (CallExpression c args') ctx))"
  by auto

theorem no_report_unless_identifier_member_witness:
  "\<not> (isMemberExpression (MemberExpression (Identifier ''Promise'') (Literal ''reject'') True)
       \<and> isIdentifier (object (MemberExpression (Identifier ''Promise'') (Literal ''reject'') True))
       \<and> isIdentifier
           (property (MemberExpression (Identifier ''Promise'') (Literal ''reject'') True)))
   \<and> descriptors (checkCallExpression
        (CallExpression (MemberExpression (Identifier ''Promise'') (Literal ''reject'') True)
           [Literal ''e''])
        ()) = []"
  using no_report_unless_identifier_member [of
      "MemberExpression (Identifier ''Promise'') (Literal ''reject'') True" "[Literal ''e'']" "()"]
  by simp

end
